theory Spec2Isabelle
  imports
    Complex_Main
    "HOL-Library.Word"
    "HOL-Library.Signed_Division"
    "HOL-Library.Multiset"
begin

unbundle bit_operations_syntax

section \<open>Machine integers of the ATmega32U4\<close>

text \<open>
  The header refuses every target but \<^verbatim>\<open>__AVR_ATmega32U4__\<close>. With avr-gcc on that
  target \<^verbatim>\<open>int\<close> has 16 bits and \<^verbatim>\<open>long\<close> has 32 bits. All three C types are
  words; \<open>+\<close>, \<open>-\<close> and \<open>*\<close> are two's complement (they wrap), \<open>sint\<close> reads a word
  as signed, \<open>uint\<close> and \<open>unat\<close> as unsigned. Overflow of a signed operation is
  undefined in C++; the model gives it the wrapped value that the AVR instructions
  produce, and the theorems that state an exact value say when nothing overflows. A cast between \<^verbatim>\<open>int\<close> and
  \<^verbatim>\<open>uint16_t\<close> keeps the 16 bits; \<^verbatim>\<open>(long)\<close> of a \<^verbatim>\<open>uint16_t\<close> zero-extends
  (\<open>ucast\<close>); \<^verbatim>\<open>(uint16_t)\<close> of a \<^verbatim>\<open>long\<close> keeps the low 16 bits (\<open>ucast\<close>).
\<close>

type_synonym uint8_t = "8 word"
type_synonym uint16_t = "16 word"
type_synonym int_t = "16 word"
type_synonym long_t = "32 word"

text \<open>
  C's \<^verbatim>\<open>/\<close> on signed operands truncates towards zero (\<open>sdiv\<close> on \<open>int\<close>), unlike
  HOL's \<open>div\<close>. \<open>trunc_div\<close> is the quotient for a divisor that is not zero (the
  Fahrenheit conversions divide by the constant 9). Division by zero has no result in
  C, where HOL's would be 0: \<open>long_div\<close>, the division of \<^verbatim>\<open>getK\<close>, checks the divisor.
\<close>

datatype error = DivisionByZero | ConfigurationError

definition trunc_div :: "'a::len word \<Rightarrow> 'a word \<Rightarrow> 'a word" where
  "trunc_div a b = word_of_int (sint a sdiv sint b)"

definition long_div :: "long_t \<Rightarrow> long_t \<Rightarrow> error + long_t" where
  "long_div a b = (if b = 0 then Inl DivisionByZero else Inr (trunc_div a b))"

section \<open>Constants of ChipTemperature.h\<close>

definition CHIPTEMP_CELSIUS_ZERO :: int_t where
  "CHIPTEMP_CELSIUS_ZERO = 273"

definition CHIPTEMP_FAHRENHEIT_0_C :: int_t where
  "CHIPTEMP_FAHRENHEIT_0_C = 32"

definition CHIPTEMP_FAHRENHEIT_NUM :: int_t where
  "CHIPTEMP_FAHRENHEIT_NUM = 5"

definition CHIPTEMP_FAHRENHEIT_DENOM :: int_t where
  "CHIPTEMP_FAHRENHEIT_DENOM = 9"

definition CHIPTEMP_SAMPLES_FOR_AVG :: nat where
  "CHIPTEMP_SAMPLES_FOR_AVG = 5"

section \<open>Calibration points\<close>

text \<open>\<^verbatim>\<open>struct ChipTempCalPointK\<close>: the fields \<^verbatim>\<open>_tempK\<close> and \<^verbatim>\<open>_hwReading\<close>.\<close>

record ChipTempCalPointK =
  tempK :: uint16_t
  hwReading :: uint16_t

text \<open>
  The constructors of \<^verbatim>\<open>ChipTempCalPointC\<close> and \<^verbatim>\<open>ChipTempCalPointF\<close>: both store
  Kelvin.
\<close>

definition ChipTempCalPointC :: "int_t \<Rightarrow> uint16_t \<Rightarrow> ChipTempCalPointK" where
  "ChipTempCalPointC tempC hw = \<lparr>tempK = tempC + CHIPTEMP_CELSIUS_ZERO, hwReading = hw\<rparr>"

definition ChipTempCalPointF :: "int_t \<Rightarrow> uint16_t \<Rightarrow> ChipTempCalPointK" where
  "ChipTempCalPointF tempF hw =
     \<lparr>tempK = trunc_div ((tempF - CHIPTEMP_FAHRENHEIT_0_C) * CHIPTEMP_FAHRENHEIT_NUM)
                         CHIPTEMP_FAHRENHEIT_DENOM
               + CHIPTEMP_CELSIUS_ZERO,
      hwReading = hw\<rparr>"

section \<open>Temperature unit conversion functions\<close>

definition kelvinToCelsius :: "uint16_t \<Rightarrow> int_t" where
  "kelvinToCelsius kelvin = kelvin - CHIPTEMP_CELSIUS_ZERO"

definition celsiusToKelvin :: "int_t \<Rightarrow> uint16_t" where
  "celsiusToKelvin celsius = celsius + CHIPTEMP_CELSIUS_ZERO"

definition celsiusToFahrenheit :: "int_t \<Rightarrow> int_t" where
  "celsiusToFahrenheit celsius =
     trunc_div (celsius * CHIPTEMP_FAHRENHEIT_NUM) CHIPTEMP_FAHRENHEIT_DENOM
       + CHIPTEMP_FAHRENHEIT_0_C"

section \<open>The class ChipTemperature\<close>

text \<open>
  The fields the header declares: the two calibration points and the array
  \<^verbatim>\<open>_samples[CHIPTEMP_SAMPLES_FOR_AVG]\<close>.
\<close>

record ChipTemperature =
  calPoint1 :: ChipTempCalPointK
  calPoint2 :: ChipTempCalPointK
  samples :: "uint16_t list"

text \<open>
  \<^verbatim>\<open>ChipTemperature::getK\<close>. The header defines it, but \<^verbatim>\<open>getRaw()\<close>, which it calls,
  is only declared: \<open>raw\<close> is the value \<^verbatim>\<open>getRaw()\<close> returned. \<open>getK_product\<close> is the
  expression of lines 150 and 151, \<open>getK_divisor\<close> the one of line 152. Line 147 of
  the header ("!!! check for signs - getRaw() is the maximum, reverse order") is a note
  of the author and not a statement; the body is the \<^verbatim>\<open>return\<close> of lines 150 to 153.
  The division is not guarded.
\<close>

definition getK_product :: "uint16_t \<Rightarrow> 'a ChipTemperature_scheme \<Rightarrow> long_t" where
  "getK_product raw this =
     ((ucast raw :: long_t) - ucast (hwReading (calPoint1 this)))
       * (ucast (tempK (calPoint2 this)) - ucast (tempK (calPoint1 this)))"

definition getK_divisor :: "'a ChipTemperature_scheme \<Rightarrow> long_t" where
  "getK_divisor this =
     ucast (hwReading (calPoint2 this)) - ucast (hwReading (calPoint1 this))"

definition getK :: "uint16_t \<Rightarrow> 'a ChipTemperature_scheme \<Rightarrow> error + uint16_t" where
  "getK raw this =
     (case long_div (getK_product raw this) (getK_divisor this) of
        Inl e \<Rightarrow> Inl e
      | Inr q \<Rightarrow> Inr (ucast (q + ucast (tempK (calPoint1 this)))))"

text \<open>
  The formula of the specification, in its own words: the quotient is a real number and
  the result is rounded to the nearest integer.
\<close>

definition spec_calibratedTemperature :: "int \<Rightarrow> int \<times> int \<Rightarrow> int \<times> int \<Rightarrow> int" where
  "spec_calibratedTemperature rawAverage P1 P2 =
     (case (P1, P2) of ((ref1, hw1), (ref2, hw2)) \<Rightarrow>
        round (real_of_int ((rawAverage - hw1) * (ref2 - ref1)) / real_of_int (hw2 - hw1)
               + real_of_int ref1))"

text \<open>The same formula evaluated exactly in the integers, with C's truncating quotient.\<close>

definition truncating_interpolation :: "int \<Rightarrow> 'a ChipTemperature_scheme \<Rightarrow> int" where
  "truncating_interpolation raw this =
     ((raw - uint (hwReading (calPoint1 this)))
        * (uint (tempK (calPoint2 this)) - uint (tempK (calPoint1 this))))
       sdiv (uint (hwReading (calPoint2 this)) - uint (hwReading (calPoint1 this)))
     + uint (tempK (calPoint1 this))"

definition fits_long :: "int \<Rightarrow> bool" where
  "fits_long k \<longleftrightarrow> - (2 ^ 31) \<le> k \<and> k < 2 ^ 31"

definition swapped :: "'a ChipTemperature_scheme \<Rightarrow> 'a ChipTemperature_scheme" where
  "swapped this = this\<lparr>calPoint1 := calPoint2 this, calPoint2 := calPoint1 this\<rparr>"

text \<open>A tracker with given calibration points and an empty window, for the examples.\<close>

definition example_tracker ::
  "uint16_t \<Rightarrow> uint16_t \<Rightarrow> uint16_t \<Rightarrow> uint16_t \<Rightarrow> ChipTemperature" where
  "example_tracker ref1 hw1 ref2 hw2 =
     \<lparr>calPoint1 = \<lparr>tempK = ref1, hwReading = hw1\<rparr>,
      calPoint2 = \<lparr>tempK = ref2, hwReading = hw2\<rparr>,
      samples = replicate CHIPTEMP_SAMPLES_FOR_AVG 0\<rparr>"

section \<open>The tracker: construction, loop and getRaw\<close>

text \<open>
  The header declares the two constructors, \<^verbatim>\<open>loop()\<close>, \<^verbatim>\<open>getRaw()\<close> and
  \<^verbatim>\<open>_resetObject()\<close>; their bodies are in neither source file. They are modelled from
  the specification of the tracker.
\<close>

text \<open>
  Modelled from the spec: the position of the ring is \<open>tickCount mod N\<close>. The class
  declares no counter, so the number of ticks since construction is a field of the
  model beside the declared ones.
\<close>

record TemperatureTracker = ChipTemperature +
  tickCount :: nat

text \<open>
  Modelled from the spec: the body of \<^verbatim>\<open>ChipTemperature::ChipTemperature()\<close> is missing.
  "If omitted, the tracker degenerates to identity calibration (raw value reported
  unchanged)"; "Initial state: all slots zero". \<^verbatim>\<open>getK\<close> has no case for a tracker
  without calibration, it always evaluates the two-point formula, so the identity is
  stored as the two points (0, 0) and (1, 1).
\<close>

definition ChipTemperature_uncalibrated :: TemperatureTracker where
  "ChipTemperature_uncalibrated =
     \<lparr>calPoint1 = \<lparr>tempK = 0, hwReading = 0\<rparr>,
      calPoint2 = \<lparr>tempK = 1, hwReading = 1\<rparr>,
      samples = replicate CHIPTEMP_SAMPLES_FOR_AVG 0,
      tickCount = 0\<rparr>"

text \<open>
  Modelled from the spec: the body of the constructor that takes two calibration points
  is missing. "If \<open>P2.hw == P1.hw\<close>, this is a construction-time configuration error
  (division by zero) - must be rejected at construction, not deferred to first read";
  otherwise the two points are stored in the order supplied and all slots are zero.
\<close>

definition ChipTemperature_calibrated ::
  "ChipTempCalPointK \<Rightarrow> ChipTempCalPointK \<Rightarrow> error + TemperatureTracker" where
  "ChipTemperature_calibrated calPoint1' calPoint2' =
     (if hwReading calPoint1' = hwReading calPoint2' then Inl ConfigurationError
      else Inr \<lparr>calPoint1 = calPoint1', calPoint2 = calPoint2',
                samples = replicate CHIPTEMP_SAMPLES_FOR_AVG 0,
                tickCount = 0\<rparr>)"

text \<open>
  Modelled from the spec: the body of \<^verbatim>\<open>ChipTemperature::loop\<close> is missing. "tick():
  acquire one sample via RawSampler; insert into the ring buffer, overwriting the slot
  that is oldest (position = \<open>tickCount mod N\<close>)". The sample acquired by
  \<^verbatim>\<open>_readHw()\<close> is the argument \<open>sample\<close>.
\<close>

definition loop :: "uint16_t \<Rightarrow> TemperatureTracker \<Rightarrow> TemperatureTracker" where
  "loop sample this =
     this\<lparr>samples := (samples this)[tickCount this mod CHIPTEMP_SAMPLES_FOR_AVG := sample],
          tickCount := tickCount this + 1\<rparr>"

text \<open>
  Modelled from the spec: the body of \<^verbatim>\<open>ChipTemperature::getRaw\<close> is missing.
  "rawAverage(): arithmetic mean (integer or fixed-point, truncating) of all N buffer
  slots, regardless of how many ticks have actually occurred".
\<close>

definition getRaw :: "'a ChipTemperature_scheme \<Rightarrow> uint16_t" where
  "getRaw this = of_nat (sum_list (map unat (samples this)) div CHIPTEMP_SAMPLES_FOR_AVG)"

text \<open>\<^verbatim>\<open>getK()\<close> as the header has it, on the value of the modelled \<^verbatim>\<open>getRaw()\<close>.\<close>

definition calibratedTemperature :: "'a ChipTemperature_scheme \<Rightarrow> error + uint16_t" where
  "calibratedTemperature this = getK (getRaw this) this"

text \<open>The caller's loop: one \<^verbatim>\<open>loop()\<close> per sample, oldest sample first.\<close>

fun run_ticks :: "uint16_t list \<Rightarrow> TemperatureTracker \<Rightarrow> TemperatureTracker" where
  "run_ticks [] this = this"
| "run_ticks (sample # rest) this = run_ticks rest (loop sample this)"

section \<open>The analog-to-digital converter\<close>



definition ADLAR :: nat where "ADLAR = 5"

















section \<open>Helper lemmas on the machine integers\<close>

lemma uint16_lt: "uint (x :: uint16_t) < 65536"
  using uint_lt2p [of x] by simp

lemma sint_long_of_int:
  "- (2 ^ 31) \<le> k \<Longrightarrow> k < 2 ^ 31 \<Longrightarrow> sint (word_of_int k :: long_t) = k"
  by (simp add: sint_sbintrunc' signed_take_bit_int_eq_self)

lemma sint_int_of_int:
  "- (2 ^ 15) \<le> k \<Longrightarrow> k < 2 ^ 15 \<Longrightarrow> sint (word_of_int k :: int_t) = k"
  by (simp add: sint_sbintrunc' signed_take_bit_int_eq_self)

lemma sint_ucast_long: "sint (ucast (x :: uint16_t) :: long_t) = uint x"
proof -
  have "0 \<le> uint x" by simp
  moreover have "uint x < 65536" by (rule uint16_lt)
  ultimately have "- 2147483648 \<le> uint x" "uint x < 2147483648"
    by linarith+
  then have "- (2 ^ 31) \<le> uint x" "uint x < 2 ^ 31"
    by simp_all
  then have "sint (word_of_int (uint x) :: long_t) = uint x"
    by (rule sint_long_of_int)
  then show ?thesis by simp
qed

lemma ucast_long_of_int: "(ucast (word_of_int k :: long_t) :: uint16_t) = word_of_int k"
  by (rule bit_word_eqI) (simp add: bit_simps)

lemma long_of_uint16: "(word_of_int (uint (x :: uint16_t)) :: long_t) = ucast x"
  by simp

lemma getK_product_of_int:
  "getK_product raw this =
     word_of_int ((uint raw - uint (hwReading (calPoint1 this)))
                   * (uint (tempK (calPoint2 this)) - uint (tempK (calPoint1 this))))"
  by (simp add: getK_product_def)

lemma sint_getK_product:
  assumes "fits_long ((uint raw - uint (hwReading (calPoint1 this)))
                   * (uint (tempK (calPoint2 this)) - uint (tempK (calPoint1 this))))"
  shows "sint (getK_product raw this) = (uint raw - uint (hwReading (calPoint1 this)))
                   * (uint (tempK (calPoint2 this)) - uint (tempK (calPoint1 this)))"
  unfolding getK_product_of_int using assms unfolding fits_long_def
  by (intro sint_long_of_int) simp_all

lemma sint_getK_divisor:
  "sint (getK_divisor this) = uint (hwReading (calPoint2 this)) - uint (hwReading (calPoint1 this))"
proof -
  let ?a = "uint (hwReading (calPoint2 this))" and ?b = "uint (hwReading (calPoint1 this))"
  have "0 \<le> ?a" "0 \<le> ?b" by simp_all
  moreover have "?a < 65536" "?b < 65536" by (rule uint16_lt)+
  ultimately have "- 2147483648 \<le> ?a - ?b" "?a - ?b < 2147483648" by linarith+
  then have "- (2 ^ 31) \<le> ?a - ?b" "?a - ?b < 2 ^ 31" by simp_all
  then have "sint (word_of_int (?a - ?b) :: long_t) = ?a - ?b"
    by (rule sint_long_of_int)
  moreover have "getK_divisor this = word_of_int (?a - ?b)"
    by (simp add: getK_divisor_def)
  ultimately show ?thesis by simp
qed

lemma getK_divisor_eq_0_iff:
  "getK_divisor this = 0 \<longleftrightarrow> hwReading (calPoint2 this) = hwReading (calPoint1 this)"
proof -
  have "getK_divisor this = 0 \<longleftrightarrow> sint (getK_divisor this) = 0"
    by (simp add: signed_eq_0_iff)
  also have "\<dots> \<longleftrightarrow> uint (hwReading (calPoint2 this)) = uint (hwReading (calPoint1 this))"
    by (simp add: sint_getK_divisor)
  also have "\<dots> \<longleftrightarrow> hwReading (calPoint2 this) = hwReading (calPoint1 this)"
    by (simp add: word_uint_eq_iff)
  finally show ?thesis .
qed

lemma getK_exact:
  assumes "hwReading (calPoint1 this) \<noteq> hwReading (calPoint2 this)"
    and "fits_long ((uint raw - uint (hwReading (calPoint1 this)))
                   * (uint (tempK (calPoint2 this)) - uint (tempK (calPoint1 this))))"
  shows "getK raw this = Inr (word_of_int (truncating_interpolation (uint raw) this))"
proof -
  have nz: "getK_divisor this \<noteq> 0"
    using assms(1) by (simp add: getK_divisor_eq_0_iff)
  have "trunc_div (getK_product raw this) (getK_divisor this) + ucast (tempK (calPoint1 this))
      = (word_of_int (truncating_interpolation (uint raw) this) :: long_t)"
    unfolding trunc_div_def sint_getK_product [OF assms(2)] sint_getK_divisor
      truncating_interpolation_def by simp
  then show ?thesis
    using nz by (simp add: getK_def long_div_def ucast_long_of_int)
qed

section \<open>Truncating division on the integers\<close>

lemma sdiv_abs_le: "\<bar>(k::int) sdiv l\<bar> \<le> \<bar>k\<bar>"
proof -
  have nn: "0 \<le> \<bar>k\<bar> div \<bar>l\<bar>"
    using div_int_pos_iff by fastforce
  have "\<bar>k sdiv l\<bar> = \<bar>sgn k\<bar> * \<bar>sgn l\<bar> * (\<bar>k\<bar> div \<bar>l\<bar>)"
    using nn by (simp add: signed_divide_int_def abs_mult)
  also have "\<dots> \<le> \<bar>k\<bar> div \<bar>l\<bar>"
    by (cases "k = 0"; cases "l = 0") (simp_all add: abs_sgn_eq)
  also have "\<dots> \<le> \<bar>k\<bar>"
    by (metis abs_0 abs_ge_zero div_by_0 div_by_1 linorder_not_less
        zabs_less_one_iff zdiv_mono2)
  finally show ?thesis .
qed

lemma abs_mult_le: "\<bar>a\<bar> \<le> A \<Longrightarrow> \<bar>s\<bar> \<le> S \<Longrightarrow> \<bar>a * s\<bar> \<le> A * (S::int)"
  unfolding abs_mult by (rule mult_mono) simp_all

lemma sdiv_minus_minus: "(- k) sdiv (- l) = k sdiv (l::int)"
  by (simp add: signed_divide_int_def)

lemma sdiv_shift:
  fixes n d s :: int
  assumes "d \<noteq> 0"
  shows "(n - d * s) sdiv d + s =
     n sdiv d + of_bool (sgn (n - d * s) \<noteq> sgn d \<and> \<not> d dvd n)
              - of_bool (sgn n \<noteq> sgn d \<and> \<not> d dvd n)"
proof -
  have "n - d * s = n + (- s) * d"
    by simp
  then have "(n - d * s) div d = n div d - s"
    using div_mult_self1 [OF assms, of n "- s"] by (simp add: mult.commute)
  moreover have "d dvd (n - d * s) \<longleftrightarrow> d dvd n"
    by (simp add: dvd_diff_left_iff)
  ultimately show ?thesis
    using assms by (simp add: signed_divide_int_eq_divide_int)
qed


lemma truncating_interpolation_swapped:
  fixes raw :: int and this :: "'a ChipTemperature_scheme"
  defines "h1 \<equiv> uint (hwReading (calPoint1 this))" and "h2 \<equiv> uint (hwReading (calPoint2 this))"
    and "t1 \<equiv> uint (tempK (calPoint1 this))" and "t2 \<equiv> uint (tempK (calPoint2 this))"
  assumes "h1 \<noteq> h2"
  shows "truncating_interpolation raw (swapped this) =
     truncating_interpolation raw this
       + of_bool (sgn ((raw - h2) * (t2 - t1)) \<noteq> sgn (h2 - h1) \<and> \<not> (h2 - h1) dvd (raw - h1) * (t2 - t1))
       - of_bool (sgn ((raw - h1) * (t2 - t1)) \<noteq> sgn (h2 - h1) \<and> \<not> (h2 - h1) dvd (raw - h1) * (t2 - t1))"
proof -
  let ?d = "h2 - h1" and ?n = "(raw - h1) * (t2 - t1)"
  have d: "?d \<noteq> 0" using assms by simp
  have eq1: "(raw - h2) * (t1 - t2) = - (?n - ?d * (t2 - t1))"
    by (simp add: algebra_simps)
  have eq2: "(raw - h2) * (t2 - t1) = ?n - ?d * (t2 - t1)"
    by (simp add: algebra_simps)
  have "truncating_interpolation raw (swapped this) = ((raw - h2) * (t1 - t2)) sdiv (h1 - h2) + t2"
    by (simp add: truncating_interpolation_def swapped_def h1_def h2_def t1_def t2_def)
  also have "\<dots> = (- (?n - ?d * (t2 - t1))) sdiv (- ?d) + t2"
    unfolding eq1 by simp
  also have "\<dots> = ((?n - ?d * (t2 - t1)) sdiv ?d + (t2 - t1)) + t1"
    unfolding sdiv_minus_minus by simp
  also have "\<dots> = (?n sdiv ?d
        + of_bool (sgn (?n - ?d * (t2 - t1)) \<noteq> sgn ?d \<and> \<not> ?d dvd ?n)
        - of_bool (sgn ?n \<noteq> sgn ?d \<and> \<not> ?d dvd ?n)) + t1"
    unfolding sdiv_shift [OF d] ..
  also have "\<dots> = truncating_interpolation raw this
        + of_bool (sgn (?n - ?d * (t2 - t1)) \<noteq> sgn ?d \<and> \<not> ?d dvd ?n)
        - of_bool (sgn ?n \<noteq> sgn ?d \<and> \<not> ?d dvd ?n)"
    by (simp add: truncating_interpolation_def h1_def h2_def t1_def t2_def)
  finally show ?thesis unfolding eq2 .
qed

lemma same_side_sgn:
  fixes a b s :: int
  assumes "0 < a * b"
  shows "sgn (a * s) = sgn (b * s)"
proof -
  have "sgn a = sgn b"
    using assms by (auto simp: zero_less_mult_iff sgn_if)
  then show ?thesis by (simp add: sgn_mult)
qed

lemma truncating_interpolation_swapped_eq:
  fixes raw :: int and this :: "'a ChipTemperature_scheme"
  defines "h1 \<equiv> uint (hwReading (calPoint1 this))" and "h2 \<equiv> uint (hwReading (calPoint2 this))"
    and "t1 \<equiv> uint (tempK (calPoint1 this))" and "t2 \<equiv> uint (tempK (calPoint2 this))"
  assumes "h1 \<noteq> h2"
    and "(h2 - h1) dvd (raw - h1) * (t2 - t1) \<or> raw \<le> min h1 h2 \<or> max h1 h2 \<le> raw"
  shows "truncating_interpolation raw (swapped this) = truncating_interpolation raw this"
proof (cases "(h2 - h1) dvd (raw - h1) * (t2 - t1)")
  case True
  then show ?thesis
    using truncating_interpolation_swapped [of this raw] assms(5)
    by (simp add: h1_def h2_def t1_def t2_def)
next
  case False
  then have "raw \<noteq> h1" "raw \<noteq> h2"
    by auto
  with False assms(6) have "0 < (raw - h2) * (raw - h1)"
    by (auto simp: zero_less_mult_iff min_def max_def split: if_splits)
  then have "sgn ((raw - h2) * (t2 - t1)) = sgn ((raw - h1) * (t2 - t1))"
    by (rule same_side_sgn)
  then show ?thesis
    using truncating_interpolation_swapped [of this raw] assms(5)
    by (simp add: h1_def h2_def t1_def t2_def)
qed

lemma truncating_interpolation_swapped_cases:
  fixes raw :: int
  assumes "uint (hwReading (calPoint1 this)) \<noteq> uint (hwReading (calPoint2 this))"
  shows "truncating_interpolation raw (swapped this) = truncating_interpolation raw this
       \<or> truncating_interpolation raw (swapped this) = truncating_interpolation raw this + 1
       \<or> truncating_interpolation raw (swapped this) = truncating_interpolation raw this - 1"
  unfolding truncating_interpolation_swapped [OF assms]
  by (simp add: of_bool_def)

lemma sdiv_mult_self:
  fixes d s :: int
  assumes "d \<noteq> 0"
  shows "(d * s) sdiv d = s"
  using assms by (simp add: signed_divide_int_eq_divide_int)

lemma ten_bit_product_bound:
  fixes raw h1 t1 t2 :: uint16_t
  assumes "uint raw \<le> 1023" "uint h1 \<le> 1023"
  shows "\<bar>(uint raw - uint h1) * (uint t2 - uint t1)\<bar> \<le> 1023 * 65535"
proof -
  have "0 \<le> uint raw" "0 \<le> uint h1" "0 \<le> uint t1" "0 \<le> uint t2" by simp_all
  moreover have "uint t1 < 65536" "uint t2 < 65536" by (rule uint16_lt)+
  ultimately have "\<bar>uint raw - uint h1\<bar> \<le> 1023" "\<bar>uint t2 - uint t1\<bar> \<le> 65535"
    using assms by linarith+
  then show ?thesis by (rule abs_mult_le)
qed

lemma fits_long_abs: "\<bar>k\<bar> \<le> 2147483647 \<Longrightarrow> fits_long k"
  unfolding fits_long_def by (simp add: abs_le_iff)

text \<open>Readings of 10 bits never overflow the product, whatever the temperatures.\<close>

lemma ten_bit_fits_long:
  fixes raw h t1 t2 :: uint16_t
  assumes "uint raw \<le> 1023" "uint h \<le> 1023"
  shows "fits_long ((uint raw - uint h) * (uint t2 - uint t1))"
  using ten_bit_product_bound [OF assms, of t2 t1] by (intro fits_long_abs) simp

lemma swapped_example_tracker: "swapped (example_tracker a b c d) = example_tracker c d a b"
  by (simp add: swapped_def example_tracker_def)

lemmas getK_unfold =
  getK_def getK_product_def getK_divisor_def long_div_def trunc_div_def signed_divide_int_def

section \<open>The calibration formula of getK\<close>

text \<open>
  C1. For calibration points with distinct hardware readings, and whenever the product
  \<open>(raw - P1.hw) * (P2.ref - P1.ref)\<close> fits in the 32-bit \<^verbatim>\<open>long\<close>, \<^verbatim>\<open>getK\<close> returns
  that product divided by \<open>P2.hw - P1.hw\<close> with the quotient truncated towards zero,
  plus \<open>P1.ref\<close>, reduced to 16 bits. With the points (273, 300) and (373, 400) a raw
  average of 350 gives 323.
\<close>

theorem getK_truncates:
  assumes "hwReading (calPoint1 this) \<noteq> hwReading (calPoint2 this)"
    and "fits_long ((uint raw - uint (hwReading (calPoint1 this)))
                   * (uint (tempK (calPoint2 this)) - uint (tempK (calPoint1 this))))"
  shows "getK raw this = Inr (word_of_int (truncating_interpolation (uint raw) this))"
  using assms by (rule getK_exact)

theorem getK_truncates_witness:
  "hwReading (calPoint1 (example_tracker 273 300 373 400))
      \<noteq> hwReading (calPoint2 (example_tracker 273 300 373 400))
   \<and> truncating_interpolation 350 (example_tracker 273 300 373 400) = 323
   \<and> getK 350 (example_tracker 273 300 373 400) = Inr 323"
  using getK_truncates [of "example_tracker 273 300 373 400" 350]
  by (simp add: example_tracker_def fits_long_def truncating_interpolation_def
      signed_divide_int_def)

text \<open>
  The quotient is not rounded to the nearest integer: with the points (273, 300) and
  (373, 401) and a raw average of 350 the exact value is 322.504..., the specification's
  formula gives 323 and \<^verbatim>\<open>getK\<close> returns 322.
\<close>

theorem getK_rounding_counterexample:
  "getK 350 (example_tracker 273 300 373 401) = Inr 322
   \<and> spec_calibratedTemperature 350 (273, 300) (373, 401) = 323"
  by (simp add: getK_unfold example_tracker_def spec_calibratedTemperature_def round_def)

section \<open>Order of the calibration points\<close>

lemma word_of_int_pm1:
  "(word_of_int (k + 1) :: uint16_t) = word_of_int k + 1"
  "(word_of_int (k - 1) :: uint16_t) = word_of_int k - 1"
  by simp_all

text \<open>
  C2, as the code has it. For calibration points with distinct hardware readings whose
  products fit in \<^verbatim>\<open>long\<close> in both orders, passing the points in the other order gives
  the same \<^verbatim>\<open>getK\<close> result whenever the quotient is exact or the raw average is not
  strictly between the two hardware readings; in every case the two results differ by
  at most one.
\<close>

theorem getK_swapped:
  assumes "hwReading (calPoint1 this) \<noteq> hwReading (calPoint2 this)"
    and "fits_long ((uint raw - uint (hwReading (calPoint1 this)))
                   * (uint (tempK (calPoint2 this)) - uint (tempK (calPoint1 this))))"
    and "fits_long ((uint raw - uint (hwReading (calPoint2 this)))
                   * (uint (tempK (calPoint1 this)) - uint (tempK (calPoint2 this))))"
  shows "((uint (hwReading (calPoint2 this)) - uint (hwReading (calPoint1 this)))
             dvd (uint raw - uint (hwReading (calPoint1 this)))
                   * (uint (tempK (calPoint2 this)) - uint (tempK (calPoint1 this)))
          \<or> raw \<le> min (hwReading (calPoint1 this)) (hwReading (calPoint2 this))
          \<or> max (hwReading (calPoint1 this)) (hwReading (calPoint2 this)) \<le> raw
          \<longrightarrow> getK raw (swapped this) = getK raw this)
      \<and> (\<exists>k. getK raw this = Inr k
             \<and> (getK raw (swapped this) = Inr k
                \<or> getK raw (swapped this) = Inr (k + 1)
                \<or> getK raw (swapped this) = Inr (k - 1)))"
proof -
  let ?T = "truncating_interpolation (uint raw) this"
  let ?T' = "truncating_interpolation (uint raw) (swapped this)"
  have ne: "uint (hwReading (calPoint1 this)) \<noteq> uint (hwReading (calPoint2 this))"
    using assms(1) by (simp add: word_uint_eq_iff)
  have orig: "getK raw this = Inr (word_of_int ?T)"
    using assms(1,2) by (rule getK_exact)
  have swap: "getK raw (swapped this) = Inr (word_of_int ?T')"
    using assms(1,3) by (intro getK_exact) (simp_all add: swapped_def)
  have same: "?T' = ?T"
    if "(uint (hwReading (calPoint2 this)) - uint (hwReading (calPoint1 this)))
             dvd (uint raw - uint (hwReading (calPoint1 this)))
                   * (uint (tempK (calPoint2 this)) - uint (tempK (calPoint1 this)))
          \<or> raw \<le> min (hwReading (calPoint1 this)) (hwReading (calPoint2 this))
          \<or> max (hwReading (calPoint1 this)) (hwReading (calPoint2 this)) \<le> raw"
    using ne that
    by (intro truncating_interpolation_swapped_eq)
       (auto simp: word_le_def min_def max_def split: if_splits)
  have "?T' = ?T \<or> ?T' = ?T + 1 \<or> ?T' = ?T - 1"
    using ne by (rule truncating_interpolation_swapped_cases)
  then have "getK raw (swapped this) = Inr (word_of_int ?T)
      \<or> getK raw (swapped this) = Inr (word_of_int ?T + 1)
      \<or> getK raw (swapped this) = Inr (word_of_int ?T - 1)"
    unfolding swap by (auto simp: word_of_int_pm1)
  with orig same swap show ?thesis
    by auto
qed

theorem getK_swapped_witness:
  "hwReading (calPoint1 (example_tracker 273 300 373 401))
      \<noteq> hwReading (calPoint2 (example_tracker 273 300 373 401))
   \<and> getK 250 (swapped (example_tracker 273 300 373 401)) = getK 250 (example_tracker 273 300 373 401)
   \<and> (\<exists>k. getK 350 (example_tracker 273 300 373 401) = Inr k
             \<and> (getK 350 (swapped (example_tracker 273 300 373 401)) = Inr k
                \<or> getK 350 (swapped (example_tracker 273 300 373 401)) = Inr (k + 1)
                \<or> getK 350 (swapped (example_tracker 273 300 373 401)) = Inr (k - 1)))"
  using getK_swapped [of "example_tracker 273 300 373 401" 250]
    getK_swapped [of "example_tracker 273 300 373 401" 350]
  by (simp add: example_tracker_def fits_long_def)

text \<open>
  Between the two hardware readings the order matters: with the points (273, 300) and
  (373, 401) a raw average of 350 gives 322, and 323 with the points swapped.
\<close>

theorem getK_swapped_counterexample:
  "hwReading (calPoint1 (example_tracker 273 300 373 401))
      \<noteq> hwReading (calPoint2 (example_tracker 273 300 373 401))
   \<and> getK 350 (example_tracker 273 300 373 401) = Inr 322
   \<and> getK 350 (swapped (example_tracker 273 300 373 401)) = Inr 323"
  by (simp add: getK_unfold example_tracker_def swapped_def)

section \<open>The calibration points themselves\<close>

lemma truncating_interpolation_point1:
  "truncating_interpolation (uint (hwReading (calPoint1 this))) this = uint (tempK (calPoint1 this))"
  by (simp add: truncating_interpolation_def)

lemma truncating_interpolation_point2:
  assumes "hwReading (calPoint1 this) \<noteq> hwReading (calPoint2 this)"
  shows "truncating_interpolation (uint (hwReading (calPoint2 this))) this = uint (tempK (calPoint2 this))"
proof -
  have "uint (hwReading (calPoint2 this)) - uint (hwReading (calPoint1 this)) \<noteq> 0"
    using assms by (simp add: word_uint_eq_iff)
  then show ?thesis
    by (simp add: truncating_interpolation_def sdiv_mult_self)
qed

lemma getK_at_point1:
  assumes "hwReading (calPoint1 this) \<noteq> hwReading (calPoint2 this)"
  shows "getK (hwReading (calPoint1 this)) this = Inr (tempK (calPoint1 this))"
proof -
  have "getK (hwReading (calPoint1 this)) this
      = Inr (word_of_int (truncating_interpolation (uint (hwReading (calPoint1 this))) this))"
    using assms by (rule getK_exact) (simp add: fits_long_def)
  then show ?thesis
    by (simp add: truncating_interpolation_point1)
qed

lemma getK_at_point2:
  assumes "hwReading (calPoint1 this) \<noteq> hwReading (calPoint2 this)"
    and "fits_long ((uint (hwReading (calPoint2 this)) - uint (hwReading (calPoint1 this)))
                   * (uint (tempK (calPoint2 this)) - uint (tempK (calPoint1 this))))"
  shows "getK (hwReading (calPoint2 this)) this = Inr (tempK (calPoint2 this))"
proof -
  have "getK (hwReading (calPoint2 this)) this
      = Inr (word_of_int (truncating_interpolation (uint (hwReading (calPoint2 this))) this))"
    using assms by (rule getK_exact)
  then show ?thesis
    by (simp add: truncating_interpolation_point2 [OF assms(1)])
qed

text \<open>
  At the calibration points the quotient is exact, provided the product
  \<open>(P2.hw - P1.hw) * (P2.ref - P1.ref)\<close> fits in the 32-bit \<^verbatim>\<open>long\<close>.
\<close>

lemma getK_at_calibration_points_fits:
  assumes "hwReading (calPoint1 this) \<noteq> hwReading (calPoint2 this)"
    and "fits_long ((uint (hwReading (calPoint2 this)) - uint (hwReading (calPoint1 this)))
                   * (uint (tempK (calPoint2 this)) - uint (tempK (calPoint1 this))))"
  shows "getK (hwReading (calPoint1 this)) this = Inr (tempK (calPoint1 this))
     \<and> getK (hwReading (calPoint2 this)) this = Inr (tempK (calPoint2 this))
     \<and> getK (hwReading (calPoint1 this)) (swapped this) = Inr (tempK (calPoint1 this))
     \<and> getK (hwReading (calPoint2 this)) (swapped this) = Inr (tempK (calPoint2 this))"
proof -
  have fits': "fits_long ((uint (hwReading (calPoint1 this)) - uint (hwReading (calPoint2 this)))
                   * (uint (tempK (calPoint1 this)) - uint (tempK (calPoint2 this))))"
  proof -
    have "(uint (hwReading (calPoint1 this)) - uint (hwReading (calPoint2 this)))
                   * (uint (tempK (calPoint1 this)) - uint (tempK (calPoint2 this)))
        = (uint (hwReading (calPoint2 this)) - uint (hwReading (calPoint1 this)))
                   * (uint (tempK (calPoint2 this)) - uint (tempK (calPoint1 this)))"
      by (simp add: algebra_simps)
    then show ?thesis using assms(2) by simp
  qed
  have "getK (hwReading (calPoint1 this)) this = Inr (tempK (calPoint1 this))"
    using assms(1) by (rule getK_at_point1)
  moreover have "getK (hwReading (calPoint2 this)) this = Inr (tempK (calPoint2 this))"
    using assms by (rule getK_at_point2)
  moreover have "getK (hwReading (calPoint1 this)) (swapped this) = Inr (tempK (calPoint1 this))"
    using getK_at_point2 [of "swapped this"] assms(1) fits'
    by (simp add: swapped_def)
  moreover have "getK (hwReading (calPoint2 this)) (swapped this) = Inr (tempK (calPoint2 this))"
    using getK_at_point1 [of "swapped this"] assms(1)
    by (simp add: swapped_def)
  ultimately show ?thesis by simp
qed

text \<open>
  A hardware reading is a value of \<^verbatim>\<open>getRaw()\<close> ("hwReading is the hardware reading
  (ChipTemperature::getRaw()) for the temperature of tempK"), the mean of samples of the
  10-bit converter: it is at most 1023.
\<close>

lemma sum_list_unat_le:
  assumes "\<forall>x \<in> set xs. unat x \<le> 1023"
  shows "sum_list (map unat (xs :: uint16_t list)) \<le> 1023 * length xs"
  using assms by (induction xs) auto

lemma getRaw_10_bit:
  assumes "length (samples this) = CHIPTEMP_SAMPLES_FOR_AVG"
    and "\<forall>x \<in> set (samples this). unat x \<le> 1023"
  shows "unat (getRaw this) \<le> 1023"
proof -
  have "sum_list (map unat (samples this)) \<le> 1023 * 5"
    using sum_list_unat_le [OF assms(2)] assms(1) by (simp add: CHIPTEMP_SAMPLES_FOR_AVG_def)
  then have le: "sum_list (map unat (samples this)) div 5 \<le> 1023"
    by simp
  have "unat (getRaw this) = (sum_list (map unat (samples this)) div 5) mod 65536"
    by (simp add: getRaw_def CHIPTEMP_SAMPLES_FOR_AVG_def unat_of_nat)
  also have "\<dots> = sum_list (map unat (samples this)) div 5"
    using le by simp
  finally show ?thesis using le by simp
qed

text \<open>
  C4. For every two-point calibration whose hardware readings are distinct (readings of
  the 10-bit sensor, at most 1023), and for either order of the points, \<^verbatim>\<open>getK\<close> returns
  exactly \<open>P1.ref\<close> when the raw average equals \<open>P1.hw\<close> and exactly \<open>P2.ref\<close> when it
  equals \<open>P2.hw\<close>, whatever the 16-bit reference temperatures.
\<close>

theorem getK_at_calibration_points:
  assumes "hwReading (calPoint1 this) \<noteq> hwReading (calPoint2 this)"
    and "uint (hwReading (calPoint1 this)) \<le> 1023"
    and "uint (hwReading (calPoint2 this)) \<le> 1023"
  shows "getK (hwReading (calPoint1 this)) this = Inr (tempK (calPoint1 this))
     \<and> getK (hwReading (calPoint2 this)) this = Inr (tempK (calPoint2 this))
     \<and> getK (hwReading (calPoint1 this)) (swapped this) = Inr (tempK (calPoint1 this))
     \<and> getK (hwReading (calPoint2 this)) (swapped this) = Inr (tempK (calPoint2 this))"
proof -
  have "fits_long ((uint (hwReading (calPoint2 this)) - uint (hwReading (calPoint1 this)))
                   * (uint (tempK (calPoint2 this)) - uint (tempK (calPoint1 this))))"
    using assms(3,2) by (rule ten_bit_fits_long)
  with assms(1) show ?thesis
    by (rule getK_at_calibration_points_fits)
qed

theorem getK_at_calibration_points_witness:
  "hwReading (calPoint1 (example_tracker 273 300 373 400))
      \<noteq> hwReading (calPoint2 (example_tracker 273 300 373 400))
   \<and> uint (hwReading (calPoint1 (example_tracker 273 300 373 400))) \<le> 1023
   \<and> uint (hwReading (calPoint2 (example_tracker 273 300 373 400))) \<le> 1023
   \<and> getK 300 (example_tracker 273 300 373 400) = Inr 273
   \<and> getK 400 (example_tracker 273 300 373 400) = Inr 373
   \<and> getK 300 (example_tracker 373 400 273 300) = Inr 273
   \<and> getK 400 (example_tracker 373 400 273 300) = Inr 373"
  using getK_at_calibration_points [of "example_tracker 273 300 373 400"]
  by (simp add: swapped_example_tracker) (simp add: example_tracker_def)

text \<open>
  The bound on the readings is needed for the second point only: a value above 1023,
  which the sensor does not deliver, can make the product wrap in \<^verbatim>\<open>long\<close>. With the
  points (0, 0) and (65535, 65535) the raw value 65535 would give 65534.
\<close>

lemma getK_at_point2_above_sensor_range:
  "getK 65535 (example_tracker 0 0 65535 65535) = Inr 65534"
  by (simp add: getK_unfold example_tracker_def)

section \<open>No overflow for 10-bit readings\<close>

lemma sint_ucast_diff:
  "sint ((ucast (x :: uint16_t) :: long_t) - ucast (y :: uint16_t)) = uint x - uint y"
proof -
  have "0 \<le> uint x" "0 \<le> uint y" by simp_all
  moreover have "uint x < 65536" "uint y < 65536" by (rule uint16_lt)+
  ultimately have "- 2147483648 \<le> uint x - uint y" "uint x - uint y < 2147483648" by linarith+
  then have "- (2 ^ 31) \<le> uint x - uint y" "uint x - uint y < 2 ^ 31" by simp_all
  then have "sint (word_of_int (uint x - uint y) :: long_t) = uint x - uint y"
    by (rule sint_long_of_int)
  then show ?thesis by simp
qed

text \<open>
  C9. For a raw average and two hardware readings in [0, 1023] and any 16-bit reference
  temperatures, every intermediate value of \<^verbatim>\<open>getK\<close> (the two differences, their
  product, the divisor, the quotient and the final sum) is in \<^verbatim>\<open>long\<close> what it is in
  the integers, and the result is the truncating interpolation reduced to 16 bits.
  The quotient exists when the two hardware readings differ.
\<close>

theorem getK_no_overflow:
  fixes raw :: uint16_t and this :: "'a ChipTemperature_scheme"
  defines "h1 \<equiv> hwReading (calPoint1 this)" and "h2 \<equiv> hwReading (calPoint2 this)"
    and "t1 \<equiv> tempK (calPoint1 this)" and "t2 \<equiv> tempK (calPoint2 this)"
  assumes "uint raw \<le> 1023" and "uint h1 \<le> 1023" and "uint h2 \<le> 1023"
  shows "sint ((ucast raw :: long_t) - ucast h1) = uint raw - uint h1
     \<and> sint ((ucast t2 :: long_t) - ucast t1) = uint t2 - uint t1
     \<and> sint (getK_product raw this) = (uint raw - uint h1) * (uint t2 - uint t1)
     \<and> sint (getK_divisor this) = uint h2 - uint h1
     \<and> (h1 \<noteq> h2 \<longrightarrow>
          sint (trunc_div (getK_product raw this) (getK_divisor this))
            = ((uint raw - uint h1) * (uint t2 - uint t1)) sdiv (uint h2 - uint h1)
        \<and> sint (trunc_div (getK_product raw this) (getK_divisor this) + ucast t1)
            = truncating_interpolation (uint raw) this
        \<and> getK raw this = Inr (word_of_int (truncating_interpolation (uint raw) this)))"
proof -
  let ?P = "(uint raw - uint h1) * (uint t2 - uint t1)"
  let ?D = "uint h2 - uint h1"
  have P: "\<bar>?P\<bar> \<le> 1023 * 65535"
    using assms(5,6) by (rule ten_bit_product_bound)
  then have fits: "fits_long ?P"
    by (intro fits_long_abs) simp
  have sP: "sint (getK_product raw this) = ?P"
    using fits unfolding h1_def t1_def t2_def by (rule sint_getK_product)
  have sD: "sint (getK_divisor this) = ?D"
    unfolding h1_def h2_def by (rule sint_getK_divisor)
  have Q: "\<bar>?P sdiv ?D\<bar> \<le> 1023 * 65535"
    using sdiv_abs_le [of ?P ?D] P by linarith
  have "- 2147483648 \<le> ?P sdiv ?D" "?P sdiv ?D < 2147483648"
    using Q by linarith+
  then have "- (2 ^ 31) \<le> ?P sdiv ?D" "?P sdiv ?D < 2 ^ 31" by simp_all
  then have sQ: "sint (trunc_div (getK_product raw this) (getK_divisor this)) = ?P sdiv ?D"
    unfolding trunc_div_def sP sD by (rule sint_long_of_int)
  have T: "truncating_interpolation (uint raw) this = ?P sdiv ?D + uint t1"
    by (simp add: truncating_interpolation_def h1_def h2_def t1_def t2_def)
  have "0 \<le> uint t1" by simp
  moreover have "uint t1 < 65536" by (rule uint16_lt)
  ultimately have "- 2147483648 \<le> ?P sdiv ?D + uint t1" "?P sdiv ?D + uint t1 < 2147483648"
    using Q by linarith+
  then have "- (2 ^ 31) \<le> ?P sdiv ?D + uint t1" "?P sdiv ?D + uint t1 < 2 ^ 31" by simp_all
  then have "sint (word_of_int (?P sdiv ?D + uint t1) :: long_t) = ?P sdiv ?D + uint t1"
    by (rule sint_long_of_int)
  moreover have "trunc_div (getK_product raw this) (getK_divisor this) + ucast t1
      = (word_of_int (?P sdiv ?D + uint t1) :: long_t)"
    unfolding trunc_div_def sP sD by simp
  ultimately have sS: "sint (trunc_div (getK_product raw this) (getK_divisor this) + ucast t1)
      = truncating_interpolation (uint raw) this"
    unfolding T by simp
  have K: "getK raw this = Inr (word_of_int (truncating_interpolation (uint raw) this))"
    if "h1 \<noteq> h2"
    using that fits unfolding h1_def h2_def t1_def t2_def by (rule getK_exact)
  show ?thesis
    using sP sD sQ sS K by (simp add: sint_ucast_diff)
qed

theorem getK_no_overflow_witness:
  "uint (1023 :: uint16_t) \<le> 1023
   \<and> uint (hwReading (calPoint1 (example_tracker 65535 0 0 1))) \<le> 1023
   \<and> uint (hwReading (calPoint2 (example_tracker 65535 0 0 1))) \<le> 1023
   \<and> hwReading (calPoint1 (example_tracker 65535 0 0 1))
        \<noteq> hwReading (calPoint2 (example_tracker 65535 0 0 1))
   \<and> sint (getK_product 1023 (example_tracker 65535 0 0 1)) = - 67042305
   \<and> getK 1023 (example_tracker 65535 0 0 1) = Inr 1022"
  using getK_no_overflow [of 1023 "example_tracker 65535 0 0 1"]
  by (simp add: example_tracker_def truncating_interpolation_def signed_divide_int_def)

section \<open>Unit conversions\<close>

lemmas conversion_consts =
  CHIPTEMP_CELSIUS_ZERO_def CHIPTEMP_FAHRENHEIT_0_C_def CHIPTEMP_FAHRENHEIT_NUM_def
  CHIPTEMP_FAHRENHEIT_DENOM_def

text \<open>
  What \<^verbatim>\<open>celsiusToFahrenheit\<close> computes where the 16-bit \<^verbatim>\<open>int\<close> does not overflow:
  \<open>c * 5 / 9 + 32\<close>.
\<close>

lemma celsiusToFahrenheit_formula:
  assumes "- 6500 \<le> sint c" and "sint c \<le> 6500"
  shows "sint (celsiusToFahrenheit c) = (sint c * 5) sdiv 9 + 32"
proof -
  have "- (2 ^ 15) \<le> sint c * 5" "sint c * 5 < 2 ^ 15"
    using assms by simp_all
  then have "sint (word_of_int (sint c * 5) :: int_t) = sint c * 5"
    by (rule sint_int_of_int)
  moreover have "c * 5 = word_of_int (sint c * 5)"
    by simp
  ultimately have five: "sint (c * 5) = sint c * 5"
    by (simp only:)
  have "\<bar>(sint c * 5) sdiv 9\<bar> \<le> \<bar>sint c * 5\<bar>"
    by (rule sdiv_abs_le)
  with assms have "- 32500 \<le> (sint c * 5) sdiv 9" "(sint c * 5) sdiv 9 \<le> 32500"
    by linarith+
  then have "- (2 ^ 15) \<le> (sint c * 5) sdiv 9 + 32" "(sint c * 5) sdiv 9 + 32 < 2 ^ 15"
    by simp_all
  then have "sint (word_of_int ((sint c * 5) sdiv 9 + 32) :: int_t) = (sint c * 5) sdiv 9 + 32"
    by (rule sint_int_of_int)
  moreover have "celsiusToFahrenheit c = word_of_int ((sint c * 5) sdiv 9 + 32)"
    unfolding celsiusToFahrenheit_def trunc_div_def conversion_consts
    using five by simp
  ultimately show ?thesis
    by (simp only:)
qed

text \<open>
  C7. \<^verbatim>\<open>celsiusToFahrenheit\<close> multiplies by 5 and divides by 9, where the conversion
  from Celsius to Fahrenheit multiplies by 9 and divides by 5: 100 degrees Celsius
  come out as 87 and not as 212. The Fahrenheit calibration point maps 212 to 373
  Kelvin, that is to 100 degrees Celsius, so the two are not inverse to each other.
\<close>

theorem celsiusToFahrenheit_100:
  "sint (celsiusToFahrenheit 100) = 87
   \<and> sint (celsiusToFahrenheit 0) = 32
   \<and> tempK (ChipTempCalPointF 212 400) = 373
   \<and> sint (celsiusToFahrenheit (kelvinToCelsius (tempK (ChipTempCalPointF 212 400)))) = 87"
  by (simp add: celsiusToFahrenheit_def ChipTempCalPointF_def kelvinToCelsius_def
      conversion_consts trunc_div_def signed_divide_int_def)

lemma celsiusToKelvin_value:
  assumes "0 \<le> sint c + 273"
  shows "uint (celsiusToKelvin c) = sint c + 273"
proof -
  have "sint c < 2 ^ 15" using sint_lt [of c] by simp
  then have "sint c + 273 < 65536" by simp
  have "celsiusToKelvin c = word_of_int (sint c + 273)"
    by (simp add: celsiusToKelvin_def CHIPTEMP_CELSIUS_ZERO_def)
  moreover have "uint (word_of_int (sint c + 273) :: int_t) = (sint c + 273) mod 65536"
    unfolding uint_word_of_int by simp
  ultimately have "uint (celsiusToKelvin c) = (sint c + 273) mod 65536"
    by (simp only:)
  also have "\<dots> = sint c + 273"
    using assms \<open>sint c + 273 < 65536\<close> by simp
  finally show ?thesis .
qed

text \<open>
  C10. \<^verbatim>\<open>kelvinToCelsius\<close> and \<^verbatim>\<open>celsiusToKelvin\<close> are inverse to each other on all
  16-bit values, and for \<open>0 \<le> c + 273\<close> the Kelvin value is the number \<open>c + 273\<close>.
\<close>

theorem kelvin_celsius_inverse:
  "kelvinToCelsius (celsiusToKelvin c) = c
   \<and> celsiusToKelvin (kelvinToCelsius k) = k
   \<and> (0 \<le> sint c + 273 \<longrightarrow> uint (celsiusToKelvin c) = sint c + 273)"
  by (simp add: celsiusToKelvin_value) (simp add: kelvinToCelsius_def celsiusToKelvin_def)

theorem kelvin_celsius_inverse_witness:
  "0 \<le> sint (- 273 :: int_t) + 273
   \<and> uint (celsiusToKelvin (- 273)) = 0
   \<and> kelvinToCelsius (celsiusToKelvin (- 273)) = - 273
   \<and> sint (kelvinToCelsius 0) = - 273
   \<and> celsiusToKelvin (kelvinToCelsius 0) = 0"
  using kelvin_celsius_inverse [of "- 273" 0]
  by (simp add: kelvinToCelsius_def CHIPTEMP_CELSIUS_ZERO_def)

section \<open>The ring of samples\<close>

lemma run_ticks_append: "run_ticks (xs @ ys) this = run_ticks ys (run_ticks xs this)"
  by (induction xs arbitrary: this) simp_all

lemma length_samples_loop [simp]: "length (samples (loop x this)) = length (samples this)"
  by (simp add: loop_def)

lemma length_samples_run_ticks [simp]: "length (samples (run_ticks xs this)) = length (samples this)"
  by (induction xs arbitrary: this) simp_all

lemma calPoints_loop [simp]:
  "calPoint1 (loop x this) = calPoint1 this" "calPoint2 (loop x this) = calPoint2 this"
  by (simp_all add: loop_def)

lemma calPoints_run_ticks [simp]:
  "calPoint1 (run_ticks xs this) = calPoint1 this" "calPoint2 (run_ticks xs this) = calPoint2 this"
  by (induction xs arbitrary: this) simp_all

lemma tickCount_run_ticks [simp]: "tickCount (run_ticks xs this) = tickCount this + length xs"
  by (induction xs arbitrary: this) (simp_all add: loop_def)

lemma length_five:
  assumes "length zs = 5"
  obtains a b c d e where "zs = [a, b, c, d, e]"
  using assms by (auto simp: length_Suc_conv eval_nat_numeral)

lemma five_ticks:
  assumes "length (samples this) = 5"
  shows "mset (samples (run_ticks [a, b, c, d, e] this)) = mset [a, b, c, d, e]
    \<and> samples (run_ticks [a, b, c, d, e] this) ! (tickCount this mod 5) = a"
proof -
  obtain p q r s t where S: "samples this = [p, q, r, s, t]"
    using assms by (rule length_five)
  have "tickCount this mod 5 < 5" by simp
  then consider "tickCount this mod 5 = 0" | "tickCount this mod 5 = 1" | "tickCount this mod 5 = 2"
    | "tickCount this mod 5 = 3" | "tickCount this mod 5 = 4"
    by linarith
  then show ?thesis
  proof cases
    case 1
    then show ?thesis
      by (simp add: loop_def CHIPTEMP_SAMPLES_FOR_AVG_def S mod_Suc)
  next
    case 2
    then show ?thesis
      by (simp add: loop_def CHIPTEMP_SAMPLES_FOR_AVG_def S mod_Suc)
  next
    case 3
    then show ?thesis
      by (simp add: loop_def CHIPTEMP_SAMPLES_FOR_AVG_def S mod_Suc)
  next
    case 4
    then show ?thesis
      by (simp add: loop_def CHIPTEMP_SAMPLES_FOR_AVG_def S mod_Suc)
  next
    case 5
    then show ?thesis
      by (simp add: loop_def CHIPTEMP_SAMPLES_FOR_AVG_def S mod_Suc)
  qed
qed


lemma last_five:
  assumes "5 \<le> length xs"
  obtains ys a b c d e where "xs = ys @ [a, b, c, d, e]"
proof -
  have "length (drop (length xs - 5) xs) = 5"
    using assms by simp
  then obtain a b c d e where "drop (length xs - 5) xs = [a, b, c, d, e]"
    by (rule length_five)
  then have "xs = take (length xs - 5) xs @ [a, b, c, d, e]"
    by (metis append_take_drop_id)
  then show thesis by (rule that)
qed

lemma sum_list_unat_mset:
  "mset xs = mset ys \<Longrightarrow> sum_list (map unat xs) = sum_list (map unat (ys :: uint16_t list))"
  by (metis mset_map sum_mset_sum_list)

text \<open>
  C5. Each \<^verbatim>\<open>loop\<close> writes its sample at slot \<open>tickCount mod N\<close>. After at least
  \<open>N = 5\<close> ticks the window holds exactly the \<open>N\<close> most recent samples, the slot
  written next holds the oldest of them, and \<^verbatim>\<open>getRaw\<close> is their truncated mean. The
  ticks 10, 12, 11, 13, 9, 100 give the mean of 12, 11, 13, 9, 100, which is 29.
\<close>

theorem ring_holds_last_samples:
  assumes "length (samples this) = CHIPTEMP_SAMPLES_FOR_AVG"
    and "CHIPTEMP_SAMPLES_FOR_AVG \<le> length xs"
  shows "samples (loop x this) = (samples this)[tickCount this mod CHIPTEMP_SAMPLES_FOR_AVG := x]
     \<and> tickCount (loop x this) = tickCount this + 1
     \<and> mset (samples (run_ticks xs this)) = mset (drop (length xs - CHIPTEMP_SAMPLES_FOR_AVG) xs)
     \<and> samples (run_ticks xs this) ! (tickCount (run_ticks xs this) mod CHIPTEMP_SAMPLES_FOR_AVG)
           = xs ! (length xs - CHIPTEMP_SAMPLES_FOR_AVG)
     \<and> getRaw (run_ticks xs this)
           = of_nat (sum_list (map unat (drop (length xs - CHIPTEMP_SAMPLES_FOR_AVG) xs))
                      div CHIPTEMP_SAMPLES_FOR_AVG)"
proof -
  from assms(2) obtain ys a b c d e where xs: "xs = ys @ [a, b, c, d, e]"
    by (auto simp: CHIPTEMP_SAMPLES_FOR_AVG_def elim: last_five)
  have len: "length (samples (run_ticks ys this)) = 5"
    using assms(1) by (simp add: CHIPTEMP_SAMPLES_FOR_AVG_def)
  have five: "mset (samples (run_ticks [a, b, c, d, e] (run_ticks ys this))) = mset [a, b, c, d, e]
      \<and> samples (run_ticks [a, b, c, d, e] (run_ticks ys this)) ! (tickCount (run_ticks ys this) mod 5) = a"
    using len by (rule five_ticks)
  have dr: "drop (length xs - 5) xs = [a, b, c, d, e]"
    by (simp add: xs)
  have m: "mset (samples (run_ticks xs this)) = mset (drop (length xs - 5) xs)"
    unfolding dr using five by (simp add: xs run_ticks_append)
  have "tickCount (run_ticks xs this) mod 5 = tickCount (run_ticks ys this) mod 5"
    by (simp add: xs)
  moreover have "xs ! (length xs - 5) = a"
    by (simp add: xs nth_append)
  ultimately have old: "samples (run_ticks xs this) ! (tickCount (run_ticks xs this) mod 5) = xs ! (length xs - 5)"
    using five by (simp add: xs run_ticks_append)
  have "sum_list (map unat (samples (run_ticks xs this))) = sum_list (map unat (drop (length xs - 5) xs))"
    using m by (rule sum_list_unat_mset)
  then have "getRaw (run_ticks xs this) = of_nat (sum_list (map unat (drop (length xs - 5) xs)) div 5)"
    by (simp add: getRaw_def CHIPTEMP_SAMPLES_FOR_AVG_def)
  with m old show ?thesis
    by (simp add: loop_def CHIPTEMP_SAMPLES_FOR_AVG_def)
qed

theorem ring_holds_last_samples_witness:
  "length (samples ChipTemperature_uncalibrated) = CHIPTEMP_SAMPLES_FOR_AVG
   \<and> CHIPTEMP_SAMPLES_FOR_AVG \<le> length [10, 12, 11, 13, 9, 100 :: uint16_t]
   \<and> drop (length [10, 12, 11, 13, 9, 100 :: uint16_t] - CHIPTEMP_SAMPLES_FOR_AVG)
        [10, 12, 11, 13, 9, 100 :: uint16_t] = [12, 11, 13, 9, 100]
   \<and> getRaw (run_ticks [10, 12, 11, 13, 9, 100] ChipTemperature_uncalibrated) = 29"
proof -
  have len: "length (samples ChipTemperature_uncalibrated) = CHIPTEMP_SAMPLES_FOR_AVG"
    by (simp add: ChipTemperature_uncalibrated_def)
  have six: "CHIPTEMP_SAMPLES_FOR_AVG \<le> length [10, 12, 11, 13, 9, 100 :: uint16_t]"
    by (simp add: CHIPTEMP_SAMPLES_FOR_AVG_def)
  have last: "drop (length [10, 12, 11, 13, 9, 100 :: uint16_t] - CHIPTEMP_SAMPLES_FOR_AVG)
        [10, 12, 11, 13, 9, 100 :: uint16_t] = [12, 11, 13, 9, 100]"
    by (simp add: CHIPTEMP_SAMPLES_FOR_AVG_def)
  have "getRaw (run_ticks [10, 12, 11, 13, 9, 100] ChipTemperature_uncalibrated)
      = of_nat (sum_list (map unat [12, 11, 13, 9, 100 :: uint16_t]) div CHIPTEMP_SAMPLES_FOR_AVG)"
    using ring_holds_last_samples [OF len six, of 0] unfolding last by (elim conjE)
  then have "getRaw (run_ticks [10, 12, 11, 13, 9, 100] ChipTemperature_uncalibrated) = 29"
    by (simp add: CHIPTEMP_SAMPLES_FOR_AVG_def)
  with len six last show ?thesis
    by (intro conjI)
qed

lemma getK_identity:
  assumes "calPoint1 this = \<lparr>tempK = 0, hwReading = 0\<rparr>"
    and "calPoint2 this = \<lparr>tempK = 1, hwReading = 1\<rparr>"
  shows "getK raw this = Inr raw"
proof -
  have "0 \<le> uint raw" by simp
  moreover have "uint raw < 65536" by (rule uint16_lt)
  ultimately have "- 2147483648 \<le> uint raw" "uint raw < 2147483648" by linarith+
  then have "fits_long (uint raw)" by (simp add: fits_long_def)
  then have "getK raw this = Inr (word_of_int (truncating_interpolation (uint raw) this))"
    using assms by (intro getK_exact) simp_all
  then show ?thesis
    using assms by (simp add: truncating_interpolation_def)
qed

text \<open>
  C6. A tracker built by the constructor without arguments reports the raw average
  unchanged, in every state that ticks can reach.
\<close>

theorem uncalibrated_is_identity:
  "calibratedTemperature (run_ticks xs ChipTemperature_uncalibrated)
     = Inr (getRaw (run_ticks xs ChipTemperature_uncalibrated))"
  unfolding calibratedTemperature_def
  by (rule getK_identity) (simp_all add: ChipTemperature_uncalibrated_def)

lemma getK_DivisionByZero_iff:
  "getK raw this = Inl DivisionByZero \<longleftrightarrow> hwReading (calPoint1 this) = hwReading (calPoint2 this)"
  by (auto simp: getK_def long_div_def getK_divisor_eq_0_iff)

lemma getK_total:
  "hwReading (calPoint1 this) \<noteq> hwReading (calPoint2 this) \<Longrightarrow> \<exists>k. getK raw this = Inr k"
  by (auto simp: getK_def long_div_def getK_divisor_eq_0_iff)

text \<open>
  C3. Construction with two calibration points of equal hardware readings is rejected,
  and a tracker that was constructed never divides by zero: \<^verbatim>\<open>getK\<close> returns a value
  in every state that ticks can reach. \<^verbatim>\<open>getK\<close> itself has no guard; it divides by zero
  exactly when the stored readings are equal.
\<close>

theorem equal_readings_rejected:
  "(hwReading p1 = hwReading p2 \<longrightarrow> ChipTemperature_calibrated p1 p2 = Inl ConfigurationError)
   \<and> (ChipTemperature_calibrated p1 p2 = Inr this \<longrightarrow>
         (\<exists>k. calibratedTemperature (run_ticks xs this) = Inr k)
         \<and> (\<exists>k. getK raw (run_ticks xs this) = Inr k))
   \<and> (getK raw t = Inl DivisionByZero \<longleftrightarrow> hwReading (calPoint1 t) = hwReading (calPoint2 t))"
proof -
  have "(\<exists>k. calibratedTemperature (run_ticks xs this) = Inr k) \<and> (\<exists>k. getK raw (run_ticks xs this) = Inr k)"
    if "ChipTemperature_calibrated p1 p2 = Inr this"
  proof -
    from that have "hwReading (calPoint1 this) \<noteq> hwReading (calPoint2 this)"
      by (auto simp: ChipTemperature_calibrated_def split: if_splits)
    then have "hwReading (calPoint1 (run_ticks xs this)) \<noteq> hwReading (calPoint2 (run_ticks xs this))"
      by simp
    then show ?thesis
      unfolding calibratedTemperature_def by (blast dest: getK_total)
  qed
  then show ?thesis
    by (simp add: ChipTemperature_calibrated_def getK_DivisionByZero_iff)
qed

theorem equal_readings_rejected_witness:
  "ChipTemperature_calibrated \<lparr>tempK = 273, hwReading = 300\<rparr> \<lparr>tempK = 373, hwReading = 300\<rparr>
      = Inl ConfigurationError
   \<and> ChipTemperature_calibrated \<lparr>tempK = 273, hwReading = 300\<rparr> \<lparr>tempK = 373, hwReading = 400\<rparr>
      = Inr \<lparr>calPoint1 = \<lparr>tempK = 273, hwReading = 300\<rparr>,
              calPoint2 = \<lparr>tempK = 373, hwReading = 400\<rparr>,
              samples = replicate CHIPTEMP_SAMPLES_FOR_AVG 0, tickCount = 0\<rparr>
   \<and> (\<exists>k. calibratedTemperature (run_ticks [350, 350, 350, 350, 350]
           \<lparr>calPoint1 = \<lparr>tempK = 273, hwReading = 300\<rparr>,
              calPoint2 = \<lparr>tempK = 373, hwReading = 400\<rparr>,
              samples = replicate CHIPTEMP_SAMPLES_FOR_AVG 0, tickCount = 0\<rparr>) = Inr k)"
proof -
  let ?t = "\<lparr>calPoint1 = \<lparr>tempK = 273, hwReading = 300\<rparr>,
              calPoint2 = \<lparr>tempK = 373, hwReading = 400\<rparr>,
              samples = replicate CHIPTEMP_SAMPLES_FOR_AVG 0, tickCount = 0\<rparr>"
  have rejected: "ChipTemperature_calibrated \<lparr>tempK = 273, hwReading = 300\<rparr>
      \<lparr>tempK = 373, hwReading = 300\<rparr> = Inl ConfigurationError"
    using equal_readings_rejected [of "\<lparr>tempK = 273, hwReading = 300\<rparr>" "\<lparr>tempK = 373, hwReading = 300\<rparr>" ?t "[]" 0 ?t, THEN conjunct1]
    by simp
  have accepted: "ChipTemperature_calibrated \<lparr>tempK = 273, hwReading = 300\<rparr>
      \<lparr>tempK = 373, hwReading = 400\<rparr> = Inr ?t"
    by (simp add: ChipTemperature_calibrated_def)
  have "\<exists>k. calibratedTemperature (run_ticks [350, 350, 350, 350, 350] ?t) = Inr k"
    using equal_readings_rejected [of "\<lparr>tempK = 273, hwReading = 300\<rparr>" "\<lparr>tempK = 373, hwReading = 400\<rparr>" ?t "[350, 350, 350, 350, 350]" 0 ?t,
        THEN conjunct2, THEN conjunct1, THEN mp, OF accepted, THEN conjunct1] .
  with rejected accepted show ?thesis
    by (intro conjI)
qed

section \<open>Raw acquisition\<close>







lemma ADMUX_right_adjusted: "\<not> bit (0xC7 :: uint8_t) ADLAR"
  by (simp add: ADLAR_def bit_simps)




























end
